theory Spec2Isabelle
  imports Complex_Main "HOL-Library.Word" "HOL-Library.List_Lexorder"
begin

section \<open>JavaScript values\<close>

text \<open>
  A JavaScript string is a sequence of UTF-16 code units. \<open>js\<close> turns an ASCII
  literal of the source into such a sequence.
\<close>

type_synonym jsstring = "16 word list"

definition js :: "string \<Rightarrow> jsstring" where
  "js s = map of_char s"

text \<open>Everything the source can throw. \<open>Error\<close> carries the message of \<open>new Error(...)\<close>.\<close>

datatype error = TypeError | RangeError | ReferenceError | InvalidCharacterError | Error jsstring

text \<open>
  Scalar field values. Odoo stores an unset field as \<open>false\<close>; numbers are finite
  doubles, kept by their exact value.
\<close>

datatype jsval = Undefined | Null | Bool bool | Num rat | Str jsstring

fun truthy :: "jsval \<Rightarrow> bool" where
  "truthy Undefined = False"
| "truthy Null = False"
| "truthy (Bool b) = b"
| "truthy (Num n) = (n \<noteq> 0)"
| "truthy (Str s) = (s \<noteq> [])"

section \<open>The browser and the records of the point of sale\<close>

text \<open>
  \<open>window.ZXing.BrowserQRCodeSvgWriter\<close> is the QR renderer: given the text it returns the
  serialized SVG or throws. \<open>window.crypto.subtle\<close> is only probed for presence.
\<close>

record zxing =
  BrowserQRCodeSvgWriter :: "(jsstring \<Rightarrow> error + jsstring) option"

record webcrypto =
  subtle :: bool

record window =
  ZXing :: "zxing option"
  crypto :: "webcrypto option"

text \<open>
  The parts of the JavaScript runtime the code calls. \<open>window = None\<close> is a runtime with no
  global \<open>window\<close>, where reading it throws a ReferenceError. \<open>Date_now\<close> and
  \<open>new_Date_toISOString\<close> are the wall clock. \<open>Number_toString\<close> and
  \<open>Number_toFixed2\<close> print a double (shortest digits, two decimals), \<open>Number_div\<close> and
  \<open>Number_mul\<close> are its rounded arithmetic. \<open>Date_toISOString v\<close> is
  \<open>new Date(v).toISOString()\<close>, which throws a RangeError on an invalid date,
  \<open>Date_toTimeString v\<close> is \<open>new Date(v).toTimeString()\<close> in the local time zone, and
  \<open>formatDateTime_Riyadh v\<close> is Odoo's
  \<open>formatDateTime(deserializeDateTime(v), {tz: "Asia/Riyadh", format: "yyyy-MM-dd HH:mm:ss"})\<close>.
\<close>

record runtime =
  window :: "window option"
  Date_now :: nat
  new_Date_toISOString :: jsstring
  Number_toString :: "rat \<Rightarrow> jsstring"
  Number_toFixed2 :: "rat \<Rightarrow> jsstring"
  Number_div :: "rat \<Rightarrow> rat \<Rightarrow> rat"
  Number_mul :: "rat \<Rightarrow> rat \<Rightarrow> rat"
  Date_toISOString :: "jsval \<Rightarrow> error + jsstring"
  Date_toTimeString :: "jsval \<Rightarrow> jsstring"
  formatDateTime_Riyadh :: "jsval \<Rightarrow> error + jsstring"

record res_country =
  country_code :: jsval

record res_company =
  company_name :: jsval
  company_vat :: jsval
  company_country_id :: "res_country option"

record res_partner =
  partner_id_value :: jsval
  partner_name :: jsval
  partner_company_type :: jsval

record certificate_data =
  public_key :: jsval
  certificate_signature :: jsval
  serial_number :: jsval
  certificate_id :: jsval

record pos_config =
  l10n_sa_edi_pos_direct_mode_enabled :: bool
  config_zatca_certificate :: "certificate_data option"

record pos_session =
  session_zatca_certificate :: "certificate_data option"

text \<open>
  \<open>this.models\<close>: for each model name the outer \<open>None\<close> is a model that is not
  registered (\<open>this.models[name]\<close> is undefined), the inner one what \<open>getFirst()\<close>
  returns.
\<close>

record pos_models =
  zatca_certificate_model :: "certificate_data option option"
  pos_config_model :: "pos_config option option"
  pos_session_model :: "pos_session option option"

text \<open>
  An order line and a payment, by what their getters return. \<open>get_tax_details\<close> is
  \<open>Inl\<close> when the call throws (the method may not exist), \<open>Inr None\<close> when it returns
  nothing, and otherwise the entries of the returned object in key order, each entry the
  \<open>percentage\<close> of its value, or \<open>None\<close> for a value with no properties to read.
\<close>

record product_product =
  product_name :: jsval

record pos_order_line =
  line_id :: jsval
  get_product :: "product_product option"
  get_quantity :: rat
  get_unit_price :: rat
  get_price_without_tax :: rat
  get_price_with_tax :: rat
  get_tax :: rat
  get_tax_details :: "error + (jsstring \<times> jsval option) list option"

record pos_payment_method =
  payment_method_name :: jsval

record pos_payment =
  payment_method_id :: "pos_payment_method option"
  payment_amount :: jsval

text \<open>
  The order. Its \<open>uuid\<close> is a string (the empty one when missing); the three totals are
  what the base getters return.
\<close>

record pos_order =
  company :: "res_company option"
  config :: "pos_config option"
  partner_id :: "res_partner option"
  models :: "pos_models option"
  uuid :: jsstring
  order_name :: jsval
  pos_reference :: jsval
  date_order :: jsval
  lines :: "pos_order_line list"
  payment_ids :: "pos_payment list"
  get_total_with_tax :: rat
  get_total_without_tax :: rat
  get_total_tax :: rat
  to_invoice :: bool
  l10n_sa_zatca_status :: jsval

section \<open>Mode selection\<close>

definition isSACompany :: "pos_order \<Rightarrow> bool" where
  "isSACompany ord =
     (case company ord of
        None \<Rightarrow> False
      | Some c \<Rightarrow>
          (case company_country_id c of
             None \<Rightarrow> False
           | Some k \<Rightarrow> country_code k = Str (js ''SA'')))"

definition isSimplifiedInvoice :: "pos_order \<Rightarrow> bool" where
  "isSimplifiedInvoice ord =
     (case partner_id ord of
        None \<Rightarrow> True
      | Some p \<Rightarrow> partner_company_type p = Str (js ''person''))"

definition config_flag :: "pos_order \<Rightarrow> bool" where
  \<comment> \<open>\<open>this.config?.l10n_sa_edi_pos_direct_mode_enabled\<close>, as a truth value\<close>
  "config_flag ord =
     (case config ord of None \<Rightarrow> False | Some cfg \<Rightarrow> l10n_sa_edi_pos_direct_mode_enabled cfg)"

text \<open>The variant under \<open>l10n_sa_edi_pos_direct/\<close>: three conjuncts.\<close>

definition shouldUsedirectMode :: "pos_order \<Rightarrow> bool" where
  "shouldUsedirectMode ord = (isSACompany ord \<and> config_flag ord \<and> isSimplifiedInvoice ord)"

text \<open>
  The variant under \<open>static/src\<close> adds \<open>_validateZatcaRequirements\<close>. Its \<open>try\<close>
  block is \<open>validateZatcaRequirements_try\<close>; the \<open>catch\<close> turns any error into
  \<open>false\<close>.
\<close>

definition company_field :: "(res_company \<Rightarrow> jsval) \<Rightarrow> pos_order \<Rightarrow> jsval" where
  \<comment> \<open>\<open>this.company?.f\<close>\<close>
  "company_field f ord = (case company ord of None \<Rightarrow> Undefined | Some c \<Rightarrow> f c)"

definition validateZatcaRequirements_try :: "runtime \<Rightarrow> pos_order \<Rightarrow> error + bool" where
  "validateZatcaRequirements_try rt ord =
     (case window rt of
        None \<Rightarrow> Inl ReferenceError
      | Some w \<Rightarrow>
          if (case ZXing w of None \<Rightarrow> True | Some z \<Rightarrow> Option.is_none (BrowserQRCodeSvgWriter z))
          then Inr False
          else if (case crypto w of None \<Rightarrow> True | Some c \<Rightarrow> \<not> subtle c)
          then Inr False
          else if \<not> truthy (company_field company_name ord) then Inr False
          else if \<not> truthy (company_field company_vat ord) then Inr False
          else Inr True)"

definition validateZatcaRequirements :: "runtime \<Rightarrow> pos_order \<Rightarrow> bool" where
  "validateZatcaRequirements rt ord =
     (case validateZatcaRequirements_try rt ord of Inl e \<Rightarrow> False | Inr b \<Rightarrow> b)"

definition shouldUsedirectMode_root :: "runtime \<Rightarrow> pos_order \<Rightarrow> bool" where
  "shouldUsedirectMode_root rt ord =
     (isSACompany ord \<and> config_flag ord \<and> isSimplifiedInvoice ord
      \<and> validateZatcaRequirements rt ord)"







section \<open>Invoicing of Saudi orders\<close>

text \<open>
  The methods of the patched base class that the overrides call through \<open>super\<close> or
  \<open>this\<close>; they belong to the point of sale, not to this module. The override of
  \<open>setup\<close> is \<open>order_setup\<close> here.
\<close>

record order_vals =
  vals_l10n_sa_zatca_status :: jsval

record base_PosOrder =
  super_setup :: "order_vals \<Rightarrow> pos_order \<Rightarrow> pos_order"
  super_is_to_invoice :: "pos_order \<Rightarrow> bool"
  super_set_to_invoice :: "bool \<Rightarrow> pos_order \<Rightarrow> error + pos_order"
  assert_editable :: "pos_order \<Rightarrow> error + unit"

definition order_setup :: "base_PosOrder \<Rightarrow> order_vals \<Rightarrow> pos_order \<Rightarrow> pos_order" where
  "order_setup base defaultObj ord0 =
     (let ord = super_setup base defaultObj ord0 in
      if isSACompany ord \<and> shouldUsedirectMode ord
      then ord\<lparr>l10n_sa_zatca_status := vals_l10n_sa_zatca_status defaultObj\<rparr>
      else if isSACompany ord then ord\<lparr>to_invoice := True\<rparr>
      else ord)"

definition is_to_invoice :: "base_PosOrder \<Rightarrow> pos_order \<Rightarrow> bool" where
  "is_to_invoice base ord =
     (if isSACompany ord \<and> shouldUsedirectMode ord then False
      else if isSACompany ord then True
      else super_is_to_invoice base ord)"

definition set_to_invoice :: "base_PosOrder \<Rightarrow> bool \<Rightarrow> pos_order \<Rightarrow> error + pos_order" where
  "set_to_invoice base v ord =
     (if isSACompany ord \<and> \<not> shouldUsedirectMode ord
      then (case assert_editable base ord of
              Inl e \<Rightarrow> Inl e
            | Inr u \<Rightarrow> Inr (ord\<lparr>to_invoice := True\<rparr>))
      else super_set_to_invoice base v ord)"

section \<open>Text encoding\<close>

text \<open>
  \<open>TextEncoder.encode\<close>: UTF-8 of a sequence of UTF-16 code units; a surrogate pair is one
  code point, a lone surrogate becomes U+FFFD. \<open>btoa\<close> encodes a string of code units up to
  255 and throws on any other. \<open>String.fromCharCode\<close> keeps the low 16 bits of its
  argument.
\<close>

fun utf8_units :: "nat list \<Rightarrow> nat list" where
  "utf8_units [] = []"
| "utf8_units (c # cs) =
     (if c < 128 then c # utf8_units cs
      else if c < 2048 then (192 + c div 64) # (128 + c mod 64) # utf8_units cs
      else if 55296 \<le> c \<and> c < 56320 then
        (case cs of
           [] \<Rightarrow> [239, 191, 189]
         | d # ds \<Rightarrow>
             if 56320 \<le> d \<and> d < 57344
             then (let cp = 65536 + (c - 55296) * 1024 + (d - 56320) in
                   [240 + cp div 262144, 128 + (cp div 4096) mod 64,
                    128 + (cp div 64) mod 64, 128 + cp mod 64] @ utf8_units ds)
             else [239, 191, 189] @ utf8_units cs)
      else if 56320 \<le> c \<and> c < 57344 then [239, 191, 189] @ utf8_units cs
      else [224 + c div 4096, 128 + (c div 64) mod 64, 128 + c mod 64] @ utf8_units cs)"

definition TextEncoder_encode :: "jsstring \<Rightarrow> nat list" where
  "TextEncoder_encode s = utf8_units (map unat s)"

definition fromCharCode :: "nat \<Rightarrow> 16 word" where
  "fromCharCode n = of_nat n"

definition binary_string :: "nat list \<Rightarrow> jsstring" where
  "binary_string arr = map fromCharCode arr"

definition b64_char :: "nat \<Rightarrow> 16 word" where
  "b64_char n =
     of_nat (if n < 26 then 65 + n else if n < 52 then 71 + n else if n < 62 then n - 4
             else if n = 62 then 43 else 47)"

fun base64 :: "nat list \<Rightarrow> jsstring" where
  "base64 (a # b # c # rest) =
     [b64_char (a div 4), b64_char ((a mod 4) * 16 + b div 16),
      b64_char ((b mod 16) * 4 + c div 64), b64_char (c mod 64)] @ base64 rest"
| "base64 [a, b] =
     [b64_char (a div 4), b64_char ((a mod 4) * 16 + b div 16), b64_char ((b mod 16) * 4), 61]"
| "base64 [a] = [b64_char (a div 4), b64_char ((a mod 4) * 16), 61, 61]"
| "base64 [] = []"

definition btoa :: "jsstring \<Rightarrow> error + jsstring" where
  "btoa s =
     (if list_all (\<lambda>c. c \<le> 255) s then Inr (base64 (map unat s))
      else Inl InvalidCharacterError)"

definition unicodeSafeBase64Encode :: "jsstring \<Rightarrow> error + jsstring" where
  "unicodeSafeBase64Encode str =
     (case btoa (binary_string (TextEncoder_encode str)) of
        Inr b \<Rightarrow> Inr b
      | Inl e \<Rightarrow> btoa (filter (\<lambda>c. c \<le> 127) str))"

definition is_alnum :: "16 word \<Rightarrow> bool" where
  "is_alnum c = ((65 \<le> c \<and> c \<le> 90) \<or> (97 \<le> c \<and> c \<le> 122) \<or> (48 \<le> c \<and> c \<le> 57))"

definition strip_non_alnum :: "jsstring \<Rightarrow> jsstring" where
  "strip_non_alnum s = filter is_alnum s"

section \<open>Tag, length, value\<close>

text \<open>
  \<open>_compute_qr_code_field\<close> builds one field as an array of numbers: the tag, the number
  of UTF-8 bytes, the bytes. \<open>encode_fields\<close> is the rest of the encoder, common to
  \<open>generateEnhancedQRDataSync\<close> and \<open>_convertQRDataToBase64String\<close>: concatenate the
  fields, turn each number into a character and call \<open>btoa\<close>. \<open>base64_decode\<close> and
  \<open>tlv_decode\<close> are the reader's side, to state what a payload holds.
\<close>

definition compute_qr_code_field :: "nat \<Rightarrow> jsstring \<Rightarrow> nat list" where
  "compute_qr_code_field tag field =
     (let name_byte_array = TextEncoder_encode field in
      [tag] @ [length name_byte_array] @ name_byte_array)"

definition encode_fields :: "(nat \<times> jsstring) list \<Rightarrow> error + jsstring" where
  "encode_fields flds =
     btoa (binary_string (concat (map (\<lambda>(tag, field). compute_qr_code_field tag field) flds)))"

definition b64_val :: "16 word \<Rightarrow> nat option" where
  "b64_val c =
     (let n = unat c in
      if 65 \<le> n \<and> n \<le> 90 then Some (n - 65)
      else if 97 \<le> n \<and> n \<le> 122 then Some (n - 71)
      else if 48 \<le> n \<and> n \<le> 57 then Some (n + 4)
      else if n = 43 then Some 62
      else if n = 47 then Some 63
      else None)"

fun base64_decode :: "jsstring \<Rightarrow> nat list option" where
  "base64_decode [] = Some []"
| "base64_decode (p # q # r # s # rest) =
     (case (b64_val p, b64_val q) of
        (Some x, Some y) \<Rightarrow>
          if rest = [] \<and> r = 61 \<and> s = 61 then Some [x * 4 + y div 16]
          else
            (case b64_val r of
               None \<Rightarrow> None
             | Some z \<Rightarrow>
                 if rest = [] \<and> s = 61 then Some [x * 4 + y div 16, (y mod 16) * 16 + z div 4]
                 else
                   (case (b64_val s, base64_decode rest) of
                      (Some w, Some bs) \<Rightarrow>
                        Some ([x * 4 + y div 16, (y mod 16) * 16 + z div 4, (z mod 4) * 64 + w]
                              @ bs)
                    | _ \<Rightarrow> None))
      | _ \<Rightarrow> None)"
| "base64_decode s = None"

function tlv_decode :: "nat list \<Rightarrow> (nat \<times> nat \<times> nat list) list option" where
  "tlv_decode [] = Some []"
| "tlv_decode [t] = None"
| "tlv_decode (t # l # rest) =
     (if length rest < l then None
      else (case tlv_decode (drop l rest) of
              None \<Rightarrow> None
            | Some fs \<Rightarrow> Some ((t, l, take l rest) # fs)))"
  by pat_completeness auto
termination
  by (relation "measure length") auto

section \<open>Certificate resolution\<close>

text \<open>
  String coercion of a scalar, as \<open>+\<close> with a string, a template literal and
  \<open>toString()\<close> on a truthy value perform it.
\<close>

fun toString :: "runtime \<Rightarrow> jsval \<Rightarrow> jsstring" where
  "toString rt Undefined = js ''undefined''"
| "toString rt Null = js ''null''"
| "toString rt (Bool b) = (if b then js ''true'' else js ''false'')"
| "toString rt (Num n) = Number_toString rt n"
| "toString rt (Str s) = s"

text \<open>\<open>v.substring(0, n)\<close>: only a string has the method.\<close>

fun substring0 :: "nat \<Rightarrow> jsval \<Rightarrow> error + jsstring" where
  "substring0 n (Str s) = Inr (take n s)"
| "substring0 n v = Inl TypeError"

function nat_toString :: "nat \<Rightarrow> jsstring" where
  "nat_toString n =
     (if n < 10 then [of_nat (48 + n)]
      else nat_toString (n div 10) @ [of_nat (48 + n mod 10)])"
  by pat_completeness auto
termination
  by (relation "measure id") auto

declare nat_toString.simps [simp del]

definition cert_field :: "(certificate_data \<Rightarrow> jsval) \<Rightarrow> certificate_data option \<Rightarrow> jsval" where
  \<comment> \<open>\<open>cert?.f\<close>\<close>
  "cert_field f c = (case c of None \<Rightarrow> Undefined | Some d \<Rightarrow> f d)"

definition getFirst_zatca :: "pos_models \<Rightarrow> certificate_data option" where
  \<comment> \<open>the record of \<open>models['zatca.certificate']\<close>, when the model exists and has one\<close>
  "getFirst_zatca m = (case zatca_certificate_model m of Some (Some z) \<Rightarrow> Some z | _ \<Rightarrow> None)"

text \<open>
  Both resolvers take the base64 primitive as \<open>enc\<close>: \<open>window.btoa\<close> under
  \<open>static/src\<close>, \<open>_unicodeSafeBase64Encode\<close> under \<open>l10n_sa_edi_pos_direct/\<close>; the
  two variants are the same text otherwise. The \<open>_try\<close> functions are the \<open>try\<close>
  blocks.
\<close>

definition company_vat_or_throw :: "pos_order \<Rightarrow> error + jsval" where
  \<comment> \<open>\<open>this.company.vat\<close>\<close>
  "company_vat_or_throw ord =
     (case company ord of None \<Rightarrow> Inl TypeError | Some c \<Rightarrow> Inr (company_vat c))"

definition placeholder :: "(jsstring \<Rightarrow> error + jsstring) \<Rightarrow> runtime \<Rightarrow> string \<Rightarrow> pos_order
    \<Rightarrow> error + jsstring" where
  \<comment> \<open>\<open>enc(marker + this.company.vat).substring(0, 64)\<close>\<close>
  "placeholder enc rt marker ord =
     (case company_vat_or_throw ord of
        Inl e \<Rightarrow> Inl e
      | Inr vat \<Rightarrow>
          (case enc (js marker @ toString rt vat) of
             Inl e \<Rightarrow> Inl e
           | Inr b \<Rightarrow> Inr (take 64 b)))"

definition public_key_direct :: "(jsstring \<Rightarrow> error + jsstring) \<Rightarrow> runtime \<Rightarrow> pos_order
    \<Rightarrow> error + jsstring" where
  \<comment> \<open>from \<open>// Check config directly\<close> on\<close>
  "public_key_direct enc rt ord =
     (let k = cert_field public_key (Option.bind (config ord) config_zatca_certificate) in
      if truthy k then substring0 88 k
      else placeholder enc rt ''ZATCA_PUBLIC_KEY_'' ord)"

definition getPublicKeySync_try :: "(jsstring \<Rightarrow> error + jsstring) \<Rightarrow> runtime \<Rightarrow> pos_order
    \<Rightarrow> error + jsstring" where
  "getPublicKeySync_try enc rt ord =
     (case models ord of
        None \<Rightarrow> public_key_direct enc rt ord
      | Some m \<Rightarrow>
          if truthy (cert_field public_key (getFirst_zatca m))
          then substring0 88 (cert_field public_key (getFirst_zatca m))
          else
            (case pos_config_model m of
               None \<Rightarrow> Inl TypeError
             | Some posConfig \<Rightarrow>
                 if truthy (cert_field public_key (Option.bind posConfig config_zatca_certificate))
                 then substring0 88
                        (cert_field public_key (Option.bind posConfig config_zatca_certificate))
                 else
                   (case pos_session_model m of
                      None \<Rightarrow> Inl TypeError
                    | Some posSession \<Rightarrow>
                        if truthy (cert_field public_key
                                     (Option.bind posSession session_zatca_certificate))
                        then substring0 88
                               (cert_field public_key
                                  (Option.bind posSession session_zatca_certificate))
                        else public_key_direct enc rt ord)))"

definition getPublicKeySync :: "(jsstring \<Rightarrow> error + jsstring) \<Rightarrow> runtime \<Rightarrow> pos_order
    \<Rightarrow> jsstring" where
  "getPublicKeySync enc rt ord =
     (case getPublicKeySync_try enc rt ord of
        Inr k \<Rightarrow> k
      | Inl e \<Rightarrow> js ''DEFAULT_PUBLIC_KEY_'' @ take 32 (nat_toString (Date_now rt)))"

text \<open>
  \<open>a || b || c\<close> under \<open>if\<close>: the first truthy value, when there is one. The record of
  \<open>zatca.certificate\<close> is asked for two fields, an attached certificate for three.
\<close>

definition zatca_record_sig :: "certificate_data option \<Rightarrow> jsval option" where
  "zatca_record_sig z =
     (case z of
        None \<Rightarrow> None
      | Some d \<Rightarrow> find truthy [certificate_signature d, serial_number d])"

definition attached_cert_sig :: "certificate_data option \<Rightarrow> jsval option" where
  "attached_cert_sig c =
     (case c of
        None \<Rightarrow> None
      | Some d \<Rightarrow> find truthy [certificate_signature d, serial_number d, certificate_id d])"

definition sig_toString88 :: "runtime \<Rightarrow> jsval \<Rightarrow> jsstring" where
  \<comment> \<open>\<open>sig.toString().substring(0, 88)\<close>\<close>
  "sig_toString88 rt sig = take 88 (toString rt sig)"

definition certificate_direct :: "(jsstring \<Rightarrow> error + jsstring) \<Rightarrow> runtime \<Rightarrow> pos_order
    \<Rightarrow> error + jsstring" where
  "certificate_direct enc rt ord =
     (case attached_cert_sig (Option.bind (config ord) config_zatca_certificate) of
        Some sig \<Rightarrow> Inr (sig_toString88 rt sig)
      | None \<Rightarrow> placeholder enc rt ''ZATCA_CERT_'' ord)"

definition getCertificateSignatureSync_try :: "(jsstring \<Rightarrow> error + jsstring) \<Rightarrow> runtime
    \<Rightarrow> pos_order \<Rightarrow> error + jsstring" where
  "getCertificateSignatureSync_try enc rt ord =
     (case models ord of
        None \<Rightarrow> certificate_direct enc rt ord
      | Some m \<Rightarrow>
          (case zatca_record_sig (getFirst_zatca m) of
             Some sig \<Rightarrow> Inr (sig_toString88 rt sig)
           | None \<Rightarrow>
               (case pos_config_model m of
                  None \<Rightarrow> Inl TypeError
                | Some posConfig \<Rightarrow>
                    (case attached_cert_sig (Option.bind posConfig config_zatca_certificate) of
                       Some sig \<Rightarrow> Inr (sig_toString88 rt sig)
                     | None \<Rightarrow>
                         (case pos_session_model m of
                            None \<Rightarrow> Inl TypeError
                          | Some posSession \<Rightarrow>
                              (case attached_cert_sig
                                      (Option.bind posSession session_zatca_certificate) of
                                 Some sig \<Rightarrow> Inr (sig_toString88 rt sig)
                               | None \<Rightarrow> certificate_direct enc rt ord))))))"

definition getCertificateSignatureSync :: "(jsstring \<Rightarrow> error + jsstring) \<Rightarrow> runtime
    \<Rightarrow> pos_order \<Rightarrow> jsstring" where
  "getCertificateSignatureSync enc rt ord =
     (case getCertificateSignatureSync_try enc rt ord of
        Inr k \<Rightarrow> k
      | Inl e \<Rightarrow> js ''DEFAULT_CERT_SIG_'' @ take 32 (nat_toString (Date_now rt)))"


section \<open>JSON\<close>

text \<open>
  A value that \<open>JSON.stringify\<close> can be given: a scalar, an array, or an object by its
  properties in the order they were created (keys distinct). \<open>property_order\<close> is the
  order in which \<open>Object.keys\<close> and \<open>JSON.stringify\<close> visit them: array indices first, by
  value, then the other keys in creation order. \<open>sort\<close> on keys is the default
  \<open>Array.prototype.sort\<close>, by code units.
\<close>

datatype json = JVal jsval | JArr "json list" | JObj "(jsstring \<times> json) list"

definition is_digit :: "16 word \<Rightarrow> bool" where
  "is_digit c = (48 \<le> c \<and> c \<le> 57)"

definition index_value :: "jsstring \<Rightarrow> nat" where
  "index_value k = foldl (\<lambda>n c. n * 10 + (unat c - 48)) 0 k"

definition is_array_index :: "jsstring \<Rightarrow> bool" where
  "is_array_index k =
     (k \<noteq> [] \<and> list_all is_digit k \<and> (length k = 1 \<or> hd k \<noteq> 48)
      \<and> index_value k < 4294967295)"

definition property_order :: "(jsstring \<times> 'a) list \<Rightarrow> (jsstring \<times> 'a) list" where
  "property_order kvs =
     sort_key (index_value \<circ> fst) (filter (is_array_index \<circ> fst) kvs)
     @ filter (Not \<circ> is_array_index \<circ> fst) kvs"

definition Object_keys :: "(jsstring \<times> 'a) list \<Rightarrow> jsstring list" where
  "Object_keys kvs = map fst (property_order kvs)"

function sortObjectKeysRecursively :: "json \<Rightarrow> json" where
  "sortObjectKeysRecursively (JArr items) = JArr (map sortObjectKeysRecursively items)"
| "sortObjectKeysRecursively (JObj kvs) =
     JObj (map (\<lambda>key. (key, case map_of kvs key of
                               None \<Rightarrow> JVal Undefined
                             | Some v \<Rightarrow> sortObjectKeysRecursively v))
             (sort (Object_keys kvs)))"
| "sortObjectKeysRecursively (JVal v) = JVal v"
  by pat_completeness auto
termination
proof (relation "measure size")
  show "wf (measure size)" by simp
next
  fix items :: "json list" and x
  assume "x \<in> set items"
  then show "(x, JArr items) \<in> measure size"
    by (induction items) auto
next
  fix kvs :: "(jsstring \<times> json) list" and key v
  assume "map_of kvs key = Some v"
  then have "(key, v) \<in> set kvs" by (rule map_of_SomeD)
  then show "(v, JObj kvs) \<in> measure size"
    by (induction kvs) auto
qed

text \<open>
  \<open>JSON.stringify(value, null, 0)\<close>, which is \<open>JSON.stringify(value)\<close>: \<open>None\<close> is the
  result \<open>undefined\<close>. A property whose value serializes to \<open>undefined\<close> is left out, an
  array element of that kind is \<open>null\<close>.
\<close>

definition hex_digit :: "nat \<Rightarrow> 16 word" where
  "hex_digit n = of_nat (if n < 10 then 48 + n else 87 + n)"

definition unicode_escape :: "16 word \<Rightarrow> jsstring" where
  "unicode_escape c =
     [92, 117, hex_digit (unat c div 4096), hex_digit (unat c div 256 mod 16),
      hex_digit (unat c div 16 mod 16), hex_digit (unat c mod 16)]"

definition is_high_surrogate :: "16 word \<Rightarrow> bool" where
  "is_high_surrogate c = (55296 \<le> c \<and> c < 56320)"

definition is_low_surrogate :: "16 word \<Rightarrow> bool" where
  "is_low_surrogate c = (56320 \<le> c \<and> c < 57344)"

fun quote_units :: "jsstring \<Rightarrow> jsstring" where
  "quote_units [] = []"
| "quote_units (c # cs) =
     (if c = 8 then [92, 98] @ quote_units cs
      else if c = 9 then [92, 116] @ quote_units cs
      else if c = 10 then [92, 110] @ quote_units cs
      else if c = 12 then [92, 102] @ quote_units cs
      else if c = 13 then [92, 114] @ quote_units cs
      else if c = 34 then [92, 34] @ quote_units cs
      else if c = 92 then [92, 92] @ quote_units cs
      else if c < 32 then unicode_escape c @ quote_units cs
      else if is_high_surrogate c then
        (case cs of
           [] \<Rightarrow> unicode_escape c
         | d # ds \<Rightarrow>
             if is_low_surrogate d then c # d # quote_units ds
             else unicode_escape c @ quote_units cs)
      else if is_low_surrogate c then unicode_escape c @ quote_units cs
      else c # quote_units cs)"

definition QuoteJSONString :: "jsstring \<Rightarrow> jsstring" where
  "QuoteJSONString s = [34] @ quote_units s @ [34]"

fun join_comma :: "jsstring list \<Rightarrow> jsstring" where
  "join_comma [] = []"
| "join_comma [x] = x"
| "join_comma (x # y # ys) = x @ [44] @ join_comma (y # ys)"

function JSON_stringify :: "runtime \<Rightarrow> json \<Rightarrow> jsstring option" where
  "JSON_stringify rt (JVal Undefined) = None"
| "JSON_stringify rt (JVal Null) = Some (js ''null'')"
| "JSON_stringify rt (JVal (Bool b)) = Some (if b then js ''true'' else js ''false'')"
| "JSON_stringify rt (JVal (Num n)) = Some (Number_toString rt n)"
| "JSON_stringify rt (JVal (Str s)) = Some (QuoteJSONString s)"
| "JSON_stringify rt (JArr items) =
     Some ([91]
           @ join_comma (map (\<lambda>item. case JSON_stringify rt item of
                                         None \<Rightarrow> js ''null''
                                       | Some t \<Rightarrow> t) items)
           @ [93])"
| "JSON_stringify rt (JObj kvs) =
     Some ([123]
           @ join_comma
               (concat (map (\<lambda>(key, v). case JSON_stringify rt v of
                                              None \<Rightarrow> []
                                            | Some t \<Rightarrow> [QuoteJSONString key @ [58] @ t])
                          (property_order kvs)))
           @ [125])"
  by pat_completeness auto
termination
proof (relation "measure (\<lambda>(rt, j). size j)")
  show "wf (measure (\<lambda>(rt, j). size j))" by simp
next
  fix rt :: runtime and items :: "json list" and x
  assume "x \<in> set items"
  then show "((rt, x), (rt, JArr items)) \<in> measure (\<lambda>(rt, j). size j)"
    by (induction items) auto
next
  fix rt :: runtime and kvs :: "(jsstring \<times> json) list" and x key v
  assume "x \<in> set (property_order kvs)" "(key, v) = x"
  then have "(key, v) \<in> set kvs"
    by (auto simp: property_order_def)
  then show "((rt, v), (rt, JObj kvs)) \<in> measure (\<lambda>(rt, j). size j)"
    by (induction kvs) auto
qed

section \<open>Canonical form\<close>

text \<open>
  The three replacements and the \<open>trim\<close> of \<open>_canonicalizeForZatca\<close>:
  \<open>/\s+/g\<close> to one space, \<open>/,\s*}/g\<close> to the brace, \<open>/,\s*]/g\<close> to the bracket. They
  run over the whole text, string contents included. When \<open>JSON.stringify\<close> gives
  \<open>undefined\<close> the call of \<open>replace\<close> throws and the \<open>catch\<close> returns the plain
  \<open>JSON.stringify(invoiceContent)\<close>.
\<close>

definition is_space :: "16 word \<Rightarrow> bool" where
  "is_space c =
     (c \<in> {9, 10, 11, 12, 13, 32, 160, 5760, 8232, 8233, 8239, 8287, 12288, 65279}
      \<or> (8192 \<le> c \<and> c \<le> 8202))"

function collapse_whitespace :: "jsstring \<Rightarrow> jsstring" where
  "collapse_whitespace [] = []"
| "collapse_whitespace (c # cs) =
     (if is_space c then 32 # collapse_whitespace (dropWhile is_space cs)
      else c # collapse_whitespace cs)"
  by pat_completeness auto
termination
  by (relation "measure length") (auto simp: length_dropWhile_le less_Suc_eq_le)

function remove_comma_before :: "16 word \<Rightarrow> jsstring \<Rightarrow> jsstring" where
  "remove_comma_before closer [] = []"
| "remove_comma_before closer (c # cs) =
     (if c = 44 then
        (case dropWhile is_space cs of
           [] \<Rightarrow> c # remove_comma_before closer cs
         | d # ds \<Rightarrow>
             if d = closer then closer # remove_comma_before closer ds
             else c # remove_comma_before closer cs)
      else c # remove_comma_before closer cs)"
  by pat_completeness auto
termination
proof (relation "measure (\<lambda>(closer, s). length s)")
  fix closer c :: "16 word" and cs d ds
  assume "dropWhile is_space cs = d # ds"
  then have "length (d # ds) \<le> length cs"
    using length_dropWhile_le [of is_space cs] by simp
  then show "((closer, ds), (closer, c # cs)) \<in> measure (\<lambda>(closer, s). length s)"
    by simp
qed auto

definition trim :: "jsstring \<Rightarrow> jsstring" where
  "trim s = rev (dropWhile is_space (rev (dropWhile is_space s)))"

definition canonicalizeForZatca :: "runtime \<Rightarrow> json \<Rightarrow> jsstring option" where
  "canonicalizeForZatca rt invoiceContent =
     (case JSON_stringify rt (sortObjectKeysRecursively invoiceContent) of
        Some jsonString \<Rightarrow>
          Some (trim (remove_comma_before 93 (remove_comma_before 125
                  (collapse_whitespace jsonString))))
      | None \<Rightarrow> JSON_stringify rt invoiceContent)"

text \<open>
  Two values are structurally equal when they are the same scalar, arrays equal element by
  element in order, or objects with the same keys and structurally equal values under each
  key, whatever the order in which the keys were created. \<open>wf_json\<close>: no object has a key
  twice.
\<close>

fun wf_json :: "json \<Rightarrow> bool" where
  "wf_json (JVal v) = True"
| "wf_json (JArr items) = list_all wf_json items"
| "wf_json (JObj kvs) = (distinct (map fst kvs) \<and> list_all (\<lambda>(key, v). wf_json v) kvs)"

function struct_eq :: "json \<Rightarrow> json \<Rightarrow> bool" where
  "struct_eq (JVal v) b = (b = JVal v)"
| "struct_eq (JArr xs) b = (case b of JArr ys \<Rightarrow> list_all2 struct_eq xs ys | _ \<Rightarrow> False)"
| "struct_eq (JObj xs) b =
     (case b of
        JObj ys \<Rightarrow>
          list_all (\<lambda>key. key \<in> set (map fst xs)) (map fst ys)
          \<and> list_all (\<lambda>key. case map_of xs key of
                               None \<Rightarrow> False
                             | Some v \<Rightarrow>
                                 (case map_of ys key of
                                    None \<Rightarrow> False
                                  | Some w \<Rightarrow> struct_eq v w))
                (map fst xs)
      | _ \<Rightarrow> False)"
  by pat_completeness auto
termination
proof (relation "measure (\<lambda>(a, b). size a)")
  show "wf (measure (\<lambda>(a, b). size a))" by simp
next
  fix xs :: "json list" and b ys x y
  assume "x \<in> set xs"
  then show "((x, y), (JArr xs, b)) \<in> measure (\<lambda>(a, b). size a)"
    by (induction xs) auto
next
  fix xs :: "(jsstring \<times> json) list" and b ys key v w
  assume "map_of xs key = Some v"
  then have "(key, v) \<in> set xs" by (rule map_of_SomeD)
  then show "((v, w), (JObj xs, b)) \<in> measure (\<lambda>(a, b). size a)"
    by (induction xs) auto
qed

section \<open>Sequencing\<close>

text \<open>
  \<open>then_do\<close> runs the next statement unless the previous one threw; \<open>try_catch\<close> is
  \<open>try { body } catch { handler }\<close>; \<open>collect\<close> is \<open>Array.prototype.map\<close> with a
  callback that may throw.
\<close>

definition then_do :: "error + 'a \<Rightarrow> ('a \<Rightarrow> error + 'b) \<Rightarrow> error + 'b" where
  "then_do m f = (case m of Inl e \<Rightarrow> Inl e | Inr x \<Rightarrow> f x)"

definition try_catch :: "error + 'a \<Rightarrow> (error + 'a) \<Rightarrow> error + 'a" where
  "try_catch body handler = (case body of Inl e \<Rightarrow> handler | Inr x \<Rightarrow> Inr x)"

fun collect :: "(error + 'a) list \<Rightarrow> error + 'a list" where
  "collect [] = Inr []"
| "collect (m # ms) = then_do m (\<lambda>x. then_do (collect ms) (\<lambda>xs. Inr (x # xs)))"

section \<open>Invoice content\<close>

text \<open>
  \<open>_getStandardizedInvoiceContentForHash\<close>. Reading a property of a missing company,
  product or payment method throws a TypeError, an invalid date a RangeError.
\<close>

definition getZatcaFormattedDate :: "runtime \<Rightarrow> pos_order \<Rightarrow> error + jsstring" where
  "getZatcaFormattedDate rt ord =
     then_do (Date_toISOString rt (date_order ord)) (\<lambda>iso. Inr (takeWhile (\<lambda>c. c \<noteq> 84) iso))"

definition getZatcaFormattedTime :: "runtime \<Rightarrow> pos_order \<Rightarrow> jsstring" where
  "getZatcaFormattedTime rt ord = takeWhile (\<lambda>c. c \<noteq> 32) (Date_toTimeString rt (date_order ord))"

definition getLineTaxRate_try :: "runtime \<Rightarrow> pos_order_line \<Rightarrow> error + jsval" where
  "getLineTaxRate_try rt line =
     then_do (get_tax_details line) (\<lambda>taxDetails.
       case taxDetails of
         Some ((firstTaxId, taxInfo) # others) \<Rightarrow>
           (case taxInfo of
              None \<Rightarrow> Inl TypeError
            | Some percentage \<Rightarrow> Inr (if truthy percentage then percentage else Num 0))
       | _ \<Rightarrow>
           if get_price_without_tax line > 0
           then Inr (Num (Number_mul rt
                           (Number_div rt (get_tax line) (get_price_without_tax line)) 100))
           else Inr (Num 15))"

definition getLineTaxRate :: "runtime \<Rightarrow> pos_order_line \<Rightarrow> jsval" where
  "getLineTaxRate rt line =
     (case getLineTaxRate_try rt line of Inl e \<Rightarrow> Num 15 | Inr rate \<Rightarrow> rate)"

definition invoice_line :: "runtime \<Rightarrow> pos_order_line \<Rightarrow> error + json" where
  "invoice_line rt line =
     (case get_product line of
        None \<Rightarrow> Inl TypeError
      | Some product \<Rightarrow>
          Inr (JObj
            [(js ''id'', JVal (line_id line)),
             (js ''product_name'', JVal (product_name product)),
             (js ''quantity'', JVal (Num (get_quantity line))),
             (js ''unit_price'', JVal (Num (get_unit_price line))),
             (js ''line_total_without_tax'', JVal (Num (get_price_without_tax line))),
             (js ''line_total_with_tax'', JVal (Num (get_price_with_tax line))),
             (js ''tax_amount'', JVal (Num (get_tax line))),
             (js ''tax_rate'', JVal (getLineTaxRate rt line))]))"

definition payment_mean :: "pos_payment \<Rightarrow> error + json" where
  "payment_mean payment =
     (case payment_method_id payment of
        None \<Rightarrow> Inl TypeError
      | Some method \<Rightarrow>
          Inr (JObj
            [(js ''method'', JVal (payment_method_name method)),
             (js ''amount'', JVal (payment_amount payment))]))"

definition getStandardizedInvoiceContentForHash :: "runtime \<Rightarrow> pos_order \<Rightarrow> error + json" where
  "getStandardizedInvoiceContentForHash rt ord =
     then_do (getZatcaFormattedDate rt ord) (\<lambda>issue_date.
     case company ord of
       None \<Rightarrow> Inl TypeError
     | Some c \<Rightarrow>
     then_do (collect (map (invoice_line rt) (lines ord))) (\<lambda>invoice_lines.
     then_do (collect (map payment_mean (payment_ids ord))) (\<lambda>payment_means.
     Inr (JObj
       [(js ''uuid'', JVal (Str (uuid ord))),
        (js ''invoice_number'', JVal (order_name ord)),
        (js ''issue_date'', JVal (Str issue_date)),
        (js ''issue_time'', JVal (Str (getZatcaFormattedTime rt ord))),
        (js ''seller_name'', JVal (company_name c)),
        (js ''seller_vat'', JVal (company_vat c)),
        (js ''customer_type'',
           JVal (Str (case partner_id ord of None \<Rightarrow> js ''cash'' | Some p \<Rightarrow> js ''named''))),
        (js ''customer_name'',
           JVal (case partner_id ord of
                   None \<Rightarrow> Str (js ''Cash Customer'')
                 | Some p \<Rightarrow>
                     if truthy (partner_name p) then partner_name p
                     else Str (js ''Cash Customer''))),
        (js ''customer_id'',
           JVal (case partner_id ord of
                   None \<Rightarrow> Null
                 | Some p \<Rightarrow>
                     if truthy (partner_id_value p) then partner_id_value p else Null)),
        (js ''line_extension_amount'', JVal (Num (get_total_without_tax ord))),
        (js ''tax_exclusive_amount'', JVal (Num (get_total_without_tax ord))),
        (js ''tax_inclusive_amount'', JVal (Num (get_total_with_tax ord))),
        (js ''tax_amount'', JVal (Num (get_total_tax ord))),
        (js ''payable_amount'', JVal (Num (get_total_with_tax ord))),
        (js ''invoice_lines'', JArr invoice_lines),
        (js ''payment_means'', JArr payment_means)]))))"

section \<open>Fingerprint and signature\<close>

text \<open>
  As the certificate resolvers, these take the base64 primitive as \<open>enc\<close>. The content
  and the signing input are objects, so their serialization is a string; the \<open>None\<close>
  branches below are there for the type only (see \<open>canonical_form_of_content\<close>).
\<close>

definition generateFallbackHash :: "(jsstring \<Rightarrow> error + jsstring) \<Rightarrow> runtime \<Rightarrow> pos_order
    \<Rightarrow> error + jsstring" where
  "generateFallbackHash enc rt ord =
     then_do (company_vat_or_throw ord) (\<lambda>vat.
     then_do (enc (js ''ZATCA_FALLBACK_'' @ uuid ord @ toString rt vat
                   @ Number_toString rt (get_total_with_tax ord) @ nat_toString (Date_now rt)))
       (\<lambda>b. Inr (take 64 b)))"

definition calculateInvoiceHashSync_try :: "(jsstring \<Rightarrow> error + jsstring) \<Rightarrow> runtime
    \<Rightarrow> pos_order \<Rightarrow> error + jsstring" where
  "calculateInvoiceHashSync_try enc rt ord =
     then_do (getStandardizedInvoiceContentForHash rt ord) (\<lambda>invoiceContent.
     case canonicalizeForZatca rt invoiceContent of
       None \<Rightarrow> Inl TypeError
     | Some canonicalContent \<Rightarrow>
         then_do (enc (QuoteJSONString canonicalContent))
           (\<lambda>b. Inr (take 64 (strip_non_alnum b))))"

definition calculateInvoiceHashSync :: "(jsstring \<Rightarrow> error + jsstring) \<Rightarrow> runtime
    \<Rightarrow> pos_order \<Rightarrow> error + jsstring" where
  "calculateInvoiceHashSync enc rt ord =
     try_catch (calculateInvoiceHashSync_try enc rt ord) (generateFallbackHash enc rt ord)"

definition js_or :: "jsval \<Rightarrow> jsval \<Rightarrow> jsval" where
  "js_or a b = (if truthy a then a else b)"

definition prepareSignatureInputSync :: "runtime \<Rightarrow> pos_order \<Rightarrow> jsstring \<Rightarrow> error + json" where
  "prepareSignatureInputSync rt ord invoiceHash =
     then_do (company_vat_or_throw ord) (\<lambda>vat.
     Inr (JObj
       [(js ''hash'', JVal (Str invoiceHash)),
        (js ''issuer'', JVal vat),
        (js ''timestamp'', JVal (js_or (date_order ord) (Str (new_Date_toISOString rt)))),
        (js ''reference'', JVal (js_or (pos_reference ord) (order_name ord))),
        (js ''amount'', JVal (Str (Number_toFixed2 rt (get_total_with_tax ord))))]))"

definition generateFallbackSignature :: "(jsstring \<Rightarrow> error + jsstring) \<Rightarrow> runtime
    \<Rightarrow> pos_order \<Rightarrow> error + jsstring" where
  "generateFallbackSignature enc rt ord =
     then_do (company_vat_or_throw ord) (\<lambda>vat.
     then_do (enc (toString rt vat @ js ''_'' @ toString rt (pos_reference ord) @ js ''_''
                   @ Number_toString rt (get_total_with_tax ord)))
       (\<lambda>b. Inr (take 64 (strip_non_alnum b))))"

definition generateDeterministicSignatureSync :: "(jsstring \<Rightarrow> error + jsstring) \<Rightarrow> runtime
    \<Rightarrow> pos_order \<Rightarrow> json \<Rightarrow> error + jsstring" where
  "generateDeterministicSignatureSync enc rt ord signatureInput =
     try_catch
       (case JSON_stringify rt signatureInput of
          None \<Rightarrow> Inl TypeError
        | Some dataString \<Rightarrow>
            then_do (enc dataString) (\<lambda>b. Inr (take 88 (strip_non_alnum b))))
       (generateFallbackSignature enc rt ord)"

definition generateDigitalSignatureSync :: "(jsstring \<Rightarrow> error + jsstring) \<Rightarrow> runtime
    \<Rightarrow> pos_order \<Rightarrow> error + jsstring" where
  "generateDigitalSignatureSync enc rt ord =
     try_catch
       (then_do (calculateInvoiceHashSync enc rt ord) (\<lambda>invoiceHash.
        then_do (prepareSignatureInputSync rt ord invoiceHash) (\<lambda>signatureInput.
        then_do (generateDeterministicSignatureSync enc rt ord signatureInput) (\<lambda>signature.
        Inr (js ''ZATCA:'' @ signature)))))
       (generateFallbackSignature enc rt ord)"

section \<open>The QR payload\<close>

text \<open>
  Under \<open>l10n_sa_edi_pos_direct/\<close>: \<open>compute_sa_qr_code\<close> and
  \<open>generateEnhancedQRDataSync\<close>; \<open>computeSAQRCode\<close> is the standard five-field encoder of
  \<open>l10n_sa_pos\<close>, a parameter. \<open>usv_string\<close> is the conversion \<open>TextEncoder.encode\<close>
  applies to its argument. Under \<open>static/src\<close>: \<open>generateQRDataSync\<close>,
  \<open>_convertQRDataToBase64String\<close>, \<open>generateZatcaQRSync\<close> and the store's
  \<open>getReceiptHeaderData\<close>, whose \<open>data\<close> is what the base method returned; \<open>null\<close> is
  \<open>None\<close>.
\<close>

definition usv_string :: "runtime \<Rightarrow> jsval \<Rightarrow> jsstring" where
  "usv_string rt v = (case v of Undefined \<Rightarrow> [] | _ \<Rightarrow> toString rt v)"

definition generateEnhancedQRDataSync_try :: "runtime \<Rightarrow> pos_order \<Rightarrow> jsval \<Rightarrow> jsval \<Rightarrow> jsval
    \<Rightarrow> rat \<Rightarrow> rat \<Rightarrow> error + jsstring" where
  "generateEnhancedQRDataSync_try rt ord name vat date_isostring amount_total amount_tax =
     then_do (formatDateTime_Riyadh rt date_isostring) (\<lambda>ksa_timestamp.
     then_do (calculateInvoiceHashSync unicodeSafeBase64Encode rt ord) (\<lambda>invoice_hash.
     then_do (generateDigitalSignatureSync unicodeSafeBase64Encode rt ord) (\<lambda>digital_signature.
     encode_fields
       [(1, usv_string rt name),
        (2, usv_string rt vat),
        (3, ksa_timestamp),
        (4, Number_toString rt amount_total),
        (5, Number_toString rt amount_tax),
        (6, invoice_hash),
        (7, digital_signature),
        (8, getPublicKeySync unicodeSafeBase64Encode rt ord),
        (9, getCertificateSignatureSync unicodeSafeBase64Encode rt ord)])))"

type_synonym standard_qr = "jsval \<Rightarrow> jsval \<Rightarrow> jsval \<Rightarrow> rat \<Rightarrow> rat \<Rightarrow> error + jsstring"

definition generateEnhancedQRDataSync :: "runtime \<Rightarrow> standard_qr \<Rightarrow> pos_order \<Rightarrow> jsval \<Rightarrow> jsval
    \<Rightarrow> jsval \<Rightarrow> rat \<Rightarrow> rat \<Rightarrow> error + jsstring" where
  "generateEnhancedQRDataSync rt computeSAQRCode ord name vat date_isostring amount_total
       amount_tax =
     try_catch
       (generateEnhancedQRDataSync_try rt ord name vat date_isostring amount_total amount_tax)
       (computeSAQRCode name vat date_isostring amount_total amount_tax)"

definition compute_sa_qr_code :: "runtime \<Rightarrow> standard_qr \<Rightarrow> pos_order \<Rightarrow> jsval \<Rightarrow> jsval
    \<Rightarrow> jsval \<Rightarrow> rat \<Rightarrow> rat \<Rightarrow> error + jsstring" where
  "compute_sa_qr_code rt computeSAQRCode ord name vat date_isostring amount_total amount_tax =
     (if shouldUsedirectMode ord
      then generateEnhancedQRDataSync rt computeSAQRCode ord name vat date_isostring
             amount_total amount_tax
      else computeSAQRCode name vat date_isostring amount_total amount_tax)"

definition qr_get :: "(nat \<times> jsval) list \<Rightarrow> nat \<Rightarrow> jsval" where
  "qr_get qr_values i = (case map_of qr_values i of None \<Rightarrow> Undefined | Some v \<Rightarrow> v)"

definition convertQRDataToBase64String :: "runtime \<Rightarrow> (nat \<times> jsval) list \<Rightarrow> jsstring" where
  "convertQRDataToBase64String rt qr_values =
     (let fields = map (\<lambda>i. js_or (qr_get qr_values i) (Str [])) [1, 2, 3, 4, 5, 6, 7, 8, 9] in
      case encode_fields (enumerate 1 (map (toString rt) fields)) of
        Inl e \<Rightarrow> []
      | Inr b \<Rightarrow> b)"

definition generateQRDataSync_try :: "runtime \<Rightarrow> pos_order \<Rightarrow> error + (nat \<times> jsval) list" where
  "generateQRDataSync_try rt ord =
     (case company ord of
        None \<Rightarrow> Inl TypeError
      | Some c \<Rightarrow>
          if \<not> truthy (company_name c) \<or> \<not> truthy (company_vat c)
          then Inl (Error (js ''Missing required company information''))
          else if uuid ord = [] then Inl (Error (js ''ZATCA UUID is required but missing''))
          else
            then_do (calculateInvoiceHashSync btoa rt ord) (\<lambda>invoice_hash.
            then_do (generateDigitalSignatureSync btoa rt ord) (\<lambda>digital_signature.
            Inr [(1, company_name c),
                 (2, company_vat c),
                 (3, js_or (date_order ord) (Str (new_Date_toISOString rt))),
                 (4, Str (Number_toFixed2 rt (get_total_with_tax ord))),
                 (5, Str (Number_toFixed2 rt (get_total_tax ord))),
                 (6, Str invoice_hash),
                 (7, Str digital_signature),
                 (8, Str (getPublicKeySync btoa rt ord)),
                 (9, Str (getCertificateSignatureSync btoa rt ord))])))"

definition generateQRDataSync :: "runtime \<Rightarrow> pos_order \<Rightarrow> (nat \<times> jsval) list option" where
  "generateQRDataSync rt ord =
     (case generateQRDataSync_try rt ord of Inl e \<Rightarrow> None | Inr qr_values \<Rightarrow> Some qr_values)"

definition simpleSvg :: jsstring where
  \<open>simpleSvg =
     [10] @ replicate 24 32
     @ js ''<svg xmlns="http://www.w3.org/2000/svg" viewBox="0 0 100 100">''
     @ [10] @ replicate 28 32 @ js ''<rect width="100" height="100" fill="white"/>''
     @ [10] @ replicate 28 32
     @ js ''<text x="50" y="50" text-anchor="middle" font-size="8" fill="black">QR</text>''
     @ [10] @ replicate 24 32 @ js ''</svg>''
     @ [10] @ replicate 20 32\<close>

definition generateZatcaQRSync_try :: "runtime \<Rightarrow> pos_order \<Rightarrow> error + jsstring option" where
  "generateZatcaQRSync_try rt ord =
     (case window rt of
        None \<Rightarrow> Inl ReferenceError
      | Some w \<Rightarrow>
          (case Option.bind (ZXing w) BrowserQRCodeSvgWriter of
             None \<Rightarrow> Inl (Error (js ''ZXing library not available''))
           | Some codeWriter_write \<Rightarrow>
               (case generateQRDataSync rt ord of
                  None \<Rightarrow> Inl (Error (js ''Failed to generate QR data''))
                | Some qr_values \<Rightarrow>
                    then_do (codeWriter_write (convertQRDataToBase64String rt qr_values))
                      (\<lambda>qr_code_svg.
                    then_do (btoa qr_code_svg) (\<lambda>b.
                    Inr (Some (js ''data:image/svg+xml;base64,'' @ b)))))))"

definition generateZatcaQRSync_fallback :: "runtime \<Rightarrow> pos_order \<Rightarrow> error + jsstring option" where
  "generateZatcaQRSync_fallback rt ord =
     try_catch
       (case generateQRDataSync rt ord of
          None \<Rightarrow> Inr None
        | Some qr_values \<Rightarrow>
            then_do (btoa simpleSvg) (\<lambda>b. Inr (Some (js ''data:image/svg+xml;base64,'' @ b))))
       (Inr None)"

definition generateZatcaQRSync :: "runtime \<Rightarrow> pos_order \<Rightarrow> error + jsstring option" where
  "generateZatcaQRSync rt ord =
     (if \<not> isSACompany ord \<or> \<not> validateZatcaRequirements rt ord then Inr None
      else try_catch (generateZatcaQRSync_try rt ord) (generateZatcaQRSync_fallback rt ord))"

record receipt_header =
  qr_code :: "jsstring option"
  zatca_direct :: "bool option"
  zatca_enhanced :: "bool option"
  zatca_fields :: "nat option"

definition getReceiptHeaderData :: "runtime \<Rightarrow> receipt_header \<Rightarrow> pos_order option
    \<Rightarrow> error + receipt_header" where
  "getReceiptHeaderData rt data order =
     (if (case order of None \<Rightarrow> False | Some ord \<Rightarrow> shouldUsedirectMode_root rt ord)
      then
        try_catch
          (then_do (case order of None \<Rightarrow> Inl TypeError | Some ord \<Rightarrow> generateZatcaQRSync rt ord)
             (\<lambda>enhancedQR.
                case enhancedQR of
                  None \<Rightarrow> Inr data
                | Some qr \<Rightarrow>
                    if qr = [] then Inr data
                    else Inr (data\<lparr>qr_code := Some qr, zatca_direct := Some True\<rparr>)))
          (Inr data)
      else if (case qr_code data of None \<Rightarrow> False | Some qr \<Rightarrow> qr \<noteq> [])
      then Inr (data\<lparr>zatca_enhanced := Some False, zatca_fields := Some 5\<rparr>)
      else Inr data)"

section \<open>Concrete orders\<close>

definition sa_company :: res_company where
  "sa_company =
     \<lparr>company_name = Str (js ''Acme Retail''), company_vat = Str (js ''300000000000003''),
      company_country_id = Some \<lparr>country_code = Str (js ''SA'')\<rparr>\<rparr>"

definition direct_config :: pos_config where
  "direct_config =
     \<lparr>l10n_sa_edi_pos_direct_mode_enabled = True, config_zatca_certificate = None\<rparr>"

definition cash_order :: pos_order where
  "cash_order =
     \<lparr>company = Some sa_company, config = Some direct_config, partner_id = None,
      models = None, uuid = js ''u-1'', order_name = Str (js ''Order 1''),
      pos_reference = Str (js ''Order 00001-001-0001''),
      date_order = Str (js ''2024-01-15 10:30:00''), lines = [], payment_ids = [],
      get_total_with_tax = 115, get_total_without_tax = 100, get_total_tax = 15,
      to_invoice = False, l10n_sa_zatca_status = Undefined\<rparr>"

definition bare_runtime :: runtime where
  \<comment> \<open>a browser with neither the QR library nor WebCrypto; its number printing is that of
    JavaScript on the natural numbers, which is all the orders below use\<close>
  "bare_runtime =
     \<lparr>window = Some \<lparr>ZXing = None, crypto = None\<rparr>, Date_now = 1700000000000,
      new_Date_toISOString = js ''2023-11-14T22:13:20.000Z'',
      Number_toString = (\<lambda>n. nat_toString (nat \<lfloor>n\<rfloor>)),
      Number_toFixed2 = (\<lambda>n. nat_toString (nat \<lfloor>n\<rfloor>) @ js ''.00''),
      Number_div = (\<lambda>a b. a / b), Number_mul = (\<lambda>a b. a * b),
      Date_toISOString = (\<lambda>v. Inr (js ''2024-01-15T07:30:00.000Z'')),
      Date_toTimeString = (\<lambda>v. js ''10:30:00 GMT+0300''),
      formatDateTime_Riyadh = (\<lambda>v. Inr (js ''2024-01-15 10:30:00''))\<rparr>"

definition odoo_base :: base_PosOrder where
  \<comment> \<open>the stock methods: \<open>is_to_invoice\<close> reads the field, \<open>set_to_invoice\<close> writes it\<close>
  "odoo_base =
     \<lparr>super_setup = (\<lambda>d ord. ord), super_is_to_invoice = to_invoice,
      super_set_to_invoice = (\<lambda>v ord. Inr (ord\<lparr>to_invoice := v\<rparr>)),
      assert_editable = (\<lambda>ord. Inr ())\<rparr>"

definition business_partner :: res_partner where
  "business_partner =
     \<lparr>partner_id_value = Num 7, partner_name = Str (js ''Globex''),
      partner_company_type = Str (js ''company'')\<rparr>"

definition business_order :: pos_order where
  "business_order = cash_order\<lparr>partner_id := Some business_partner\<rparr>"

definition foreign_order :: pos_order where
  "foreign_order = cash_order\<lparr>company := None\<rparr>"

definition no_vals :: order_vals where
  "no_vals = \<lparr>vals_l10n_sa_zatca_status = Undefined\<rparr>"







definition long_name :: jsstring where
  \<comment> \<open>the letter a, 65536 times\<close>
  "long_name = replicate 65536 97"

definition receipt_a :: json where
  "receipt_a =
     JObj [(js ''total'', JVal (Num 115)),
           (js ''lines'', JArr [JObj [(js ''qty'', JVal (Num 1)), (js ''name'', JVal (Str (js ''Tea'')))]]),
           (js ''10'', JVal Null)]"

definition receipt_b :: json where
  "receipt_b =
     JObj [(js ''10'', JVal Null),
           (js ''lines'', JArr [JObj [(js ''name'', JVal (Str (js ''Tea''))), (js ''qty'', JVal (Num 1))]]),
           (js ''total'', JVal (Num 115))]"

section \<open>Properties of mode selection\<close>







lemmas order_defs = shouldUsedirectMode_def isSACompany_def config_flag_def
  isSimplifiedInvoice_def cash_order_def sa_company_def direct_config_def business_order_def
  business_partner_def foreign_order_def

section \<open>Properties of invoicing\<close>

text \<open>
  C10: for an order of a Saudi company, \<open>is_to_invoice\<close> is false when direct mode applies;
  when it does not apply the order is forced into invoicing: \<open>setup\<close> leaves
  \<open>to_invoice\<close> true (the conditions are read after the base \<open>setup\<close> has run),
  \<open>is_to_invoice\<close> is true and \<open>set_to_invoice\<close> stores true whatever value was
  requested, once the base class's \<open>assert_editable\<close> has passed. An order of any other
  company gets the base behaviour of all three methods.
\<close>

theorem forced_invoicing:
  "(isSACompany ord \<and> shouldUsedirectMode ord \<longrightarrow> \<not> is_to_invoice base ord)
   \<and> (isSACompany ord \<and> \<not> shouldUsedirectMode ord \<longrightarrow>
        is_to_invoice base ord
        \<and> set_to_invoice base v ord =
            (case assert_editable base ord of
               Inl e \<Rightarrow> Inl e
             | Inr u \<Rightarrow> Inr (ord\<lparr>to_invoice := True\<rparr>)))
   \<and> (isSACompany (super_setup base d ord) \<and> \<not> shouldUsedirectMode (super_setup base d ord) \<longrightarrow>
        to_invoice (order_setup base d ord))
   \<and> (\<not> isSACompany ord \<longrightarrow>
        is_to_invoice base ord = super_is_to_invoice base ord
        \<and> set_to_invoice base v ord = super_set_to_invoice base v ord)
   \<and> (\<not> isSACompany (super_setup base d ord) \<longrightarrow>
        order_setup base d ord = super_setup base d ord)"
  by (simp add: is_to_invoice_def set_to_invoice_def order_setup_def Let_def)

theorem forced_invoicing_witness:
  "\<not> is_to_invoice odoo_base cash_order
   \<and> is_to_invoice odoo_base business_order
   \<and> set_to_invoice odoo_base False business_order = Inr (business_order\<lparr>to_invoice := True\<rparr>)
   \<and> to_invoice (order_setup odoo_base no_vals business_order)
   \<and> is_to_invoice odoo_base foreign_order = False
   \<and> set_to_invoice odoo_base True foreign_order = Inr (foreign_order\<lparr>to_invoice := True\<rparr>)
   \<and> order_setup odoo_base no_vals foreign_order = foreign_order"
  using forced_invoicing [of cash_order odoo_base False no_vals]
    forced_invoicing [of business_order odoo_base False no_vals]
    forced_invoicing [of foreign_order odoo_base True no_vals]
  by (simp add: order_defs odoo_base_def js_def)

section \<open>Properties of the encoders\<close>

lemma b64_val_char: "n < 64 \<Longrightarrow> b64_val (b64_char n) = Some n"
  by (auto simp: b64_val_def b64_char_def unat_of_nat Let_def)

lemma b64_char_not_pad: "n < 64 \<Longrightarrow> b64_char n \<noteq> 61"
proof
  assume "n < 64" and "b64_char n = 61"
  then have "unat (b64_char n) = 61" by simp
  with \<open>n < 64\<close> show False
    by (auto simp: b64_char_def unat_of_nat split: if_splits)
qed

lemma sextets:
  fixes a b c :: nat
  assumes "a < 256" "b < 256" "c < 256"
  shows "a div 4 < 64" "(a mod 4) * 16 + b div 16 < 64" "(b mod 16) * 4 + c div 64 < 64"
    "c mod 64 < 64" "(a mod 4) * 16 < 64" "(b mod 16) * 4 < 64"
  using assms by auto

lemma div_mod_16: 
  fixes k x :: nat
  assumes "x < 16" shows "(k * 16 + x) div 16 = k" "(k * 16 + x) mod 16 = x"
  using assms by simp_all

lemma div_mod_4: 
  fixes k x :: nat
  assumes "x < 4" shows "(k * 4 + x) div 4 = k" "(k * 4 + x) mod 4 = x"
  using assms by simp_all

lemma regroup:
  fixes a b c :: nat
  assumes "a < 256" "b < 256" "c < 256"
  shows "a div 4 * 4 + ((a mod 4) * 16 + b div 16) div 16 = a"
    "((a mod 4) * 16 + b div 16) mod 16 * 16 + ((b mod 16) * 4 + c div 64) div 4 = b"
    "((b mod 16) * 4 + c div 64) mod 4 * 64 + c mod 64 = c"
    "a div 4 * 4 + ((a mod 4) * 16) div 16 = a"
    "((a mod 4) * 16 + b div 16) mod 16 * 16 + ((b mod 16) * 4) div 4 = b"
proof -
  have b16: "b div 16 < 16" and c64: "c div 64 < 4" using assms by auto
  note m = mod_less [OF b16] mod_less [OF c64]
  show "a div 4 * 4 + ((a mod 4) * 16 + b div 16) div 16 = a"
    by (simp add: div_mod_16 [OF b16] m)
  show "((a mod 4) * 16 + b div 16) mod 16 * 16 + ((b mod 16) * 4 + c div 64) div 4 = b"
    by (simp add: div_mod_16 [OF b16] div_mod_4 [OF c64] m)
  show "((b mod 16) * 4 + c div 64) mod 4 * 64 + c mod 64 = c"
    by (simp add: div_mod_4 [OF c64] m)
  show "a div 4 * 4 + ((a mod 4) * 16) div 16 = a"
    by simp
  show "((a mod 4) * 16 + b div 16) mod 16 * 16 + ((b mod 16) * 4) div 4 = b"
    by (simp add: div_mod_16 [OF b16] m)
qed

lemma base64_decode_base64:
  "\<forall>b\<in>set bs. b < 256 \<Longrightarrow> base64_decode (base64 bs) = Some bs"
proof (induction bs rule: base64.induct)
  case (1 a b c rest)
  then have lt: "a < 256" "b < 256" "c < 256" and rest: "base64_decode (base64 rest) = Some rest"
    by simp_all
  define s1 s2 s3 s4
    where s: "s1 = a div 4" "s2 = (a mod 4) * 16 + b div 16" "s3 = (b mod 16) * 4 + c div 64"
      "s4 = c mod 64"
  have lt64: "s1 < 64" "s2 < 64" "s3 < 64" "s4 < 64"
    unfolding s by (rule sextets [OF lt])+
  have join: "s1 * 4 + s2 div 16 = a" "s2 mod 16 * 16 + s3 div 4 = b" "s3 mod 4 * 64 + s4 = c"
    unfolding s by (rule regroup [OF lt])+
  have "base64 (a # b # c # rest)
          = b64_char s1 # b64_char s2 # b64_char s3 # b64_char s4 # base64 rest"
    by (simp add: s)
  then show ?case
    by (simp add: b64_val_char b64_char_not_pad lt64 join rest)
next
  case (2 a b)
  then have lt: "a < 256" "b < 256" by simp_all
  define s1 s2 s3
    where s: "s1 = a div 4" "s2 = (a mod 4) * 16 + b div 16" "s3 = (b mod 16) * 4"
  have lt64: "s1 < 64" "s2 < 64" "s3 < 64"
    unfolding s by (rule sextets [OF lt lt(1)])+
  have join: "s1 * 4 + s2 div 16 = a" "s2 mod 16 * 16 + s3 div 4 = b"
    unfolding s by (rule regroup [OF lt lt(1)])+
  have "base64 [a, b] = [b64_char s1, b64_char s2, b64_char s3, 61]"
    by (simp add: s)
  then show ?case
    by (simp add: b64_val_char b64_char_not_pad lt64 join)
next
  case (3 a)
  then have lt: "a < 256" by simp
  define s1 s2 where s: "s1 = a div 4" "s2 = (a mod 4) * 16"
  have lt64: "s1 < 64" "s2 < 64"
    unfolding s by (rule sextets [OF lt lt lt])+
  have join: "s1 * 4 + s2 div 16 = a"
    unfolding s by (rule regroup [OF lt lt lt])
  have "base64 [a] = [b64_char s1, b64_char s2, 61, 61]"
    by (simp add: s)
  then show ?case
    by (simp add: b64_val_char b64_char_not_pad lt64 join)
next
  case 4
  show ?case by simp
qed

lemma mod_64_lt_128: "(x::nat) mod 64 < 128"
proof -
  have "x mod 64 < 64" by simp
  then show ?thesis by linarith
qed

lemma utf8_units_step:
  "c < 128 \<Longrightarrow> utf8_units (c # cs) = c # utf8_units cs"
  "128 \<le> c \<Longrightarrow> c < 2048 \<Longrightarrow>
     utf8_units (c # cs) = (192 + c div 64) # (128 + c mod 64) # utf8_units cs"
  "55296 \<le> c \<Longrightarrow> c < 56320 \<Longrightarrow> utf8_units [c] = [239, 191, 189]"
  "55296 \<le> c \<Longrightarrow> c < 56320 \<Longrightarrow> 56320 \<le> d \<Longrightarrow> d < 57344 \<Longrightarrow>
     utf8_units (c # d # ds) =
       [240 + (65536 + (c - 55296) * 1024 + (d - 56320)) div 262144,
        128 + ((65536 + (c - 55296) * 1024 + (d - 56320)) div 4096) mod 64,
        128 + ((65536 + (c - 55296) * 1024 + (d - 56320)) div 64) mod 64,
        128 + (65536 + (c - 55296) * 1024 + (d - 56320)) mod 64] @ utf8_units ds"
  "55296 \<le> c \<Longrightarrow> c < 56320 \<Longrightarrow> d < 56320 \<or> 57344 \<le> d \<Longrightarrow>
     utf8_units (c # d # ds) = [239, 191, 189] @ utf8_units (d # ds)"
  "56320 \<le> c \<Longrightarrow> c < 57344 \<Longrightarrow> utf8_units (c # cs) = [239, 191, 189] @ utf8_units cs"
  "2048 \<le> c \<Longrightarrow> c < 55296 \<or> 57344 \<le> c \<Longrightarrow>
     utf8_units (c # cs) =
       [224 + c div 4096, 128 + (c div 64) mod 64, 128 + c mod 64] @ utf8_units cs"
  by (auto simp: Let_def)

lemma utf8_units_lt:
  "\<forall>c\<in>set cs. c < 65536 \<Longrightarrow> \<forall>b\<in>set (utf8_units cs). b < 256"
proof (induction cs rule: utf8_units.induct)
  case 1
  then show ?case by simp
next
  case (2 c cs)
  then have c: "c < 65536" and cs: "\<forall>x\<in>set cs. x < 65536"
    by simp_all
  have lead: "224 + c div 4096 < 256" "c < 2048 \<Longrightarrow> 192 + c div 64 < 256"
    using c by auto
  consider (ascii) "c < 128" | (two) "128 \<le> c" "c < 2048"
    | (high) "55296 \<le> c" "c < 56320"
    | (low) "56320 \<le> c" "c < 57344"
    | (three) "2048 \<le> c" "c < 55296 \<or> 57344 \<le> c"
    by linarith
  then show ?case
  proof cases
    case ascii
    then show ?thesis using "2.IH"(1) cs
      by (simp add: utf8_units_step del: utf8_units.simps)
  next
    case two
    then show ?thesis using "2.IH"(2) cs lead
      by (simp add: utf8_units_step mod_64_lt_128 del: utf8_units.simps)
  next
    case high
    show ?thesis
    proof (cases cs)
      case Nil
      then show ?thesis using high
        by (simp add: utf8_units_step del: utf8_units.simps)
    next
      case (Cons d ds)
      show ?thesis
      proof (cases "56320 \<le> d \<and> d < 57344")
        case True
        define cp where "cp = 65536 + (c - 55296) * 1024 + (d - 56320)"
        have "c - 55296 \<le> 1023" "d - 56320 \<le> 1023" using high True by auto
        then have "(c - 55296) * 1024 \<le> 1023 * 1024" "d - 56320 \<le> 1023"
          by (auto intro: mult_le_mono1)
        then have "cp < 1114112" by (simp add: cp_def)
        then have "240 + cp div 262144 < 256" by simp
        moreover have "\<forall>b\<in>set (utf8_units ds). b < 256"
          using "2.IH"(3) [OF _ _ _ Cons True refl] high cs Cons by simp
        moreover have "utf8_units (c # cs) =
            [240 + cp div 262144, 128 + (cp div 4096) mod 64, 128 + (cp div 64) mod 64,
             128 + cp mod 64] @ utf8_units ds"
          unfolding Cons cp_def using high True by (intro utf8_units_step(4)) simp_all
        ultimately show ?thesis
          by (simp add: mod_64_lt_128 del: utf8_units.simps)
      next
        case False
        have "\<forall>b\<in>set (utf8_units cs). b < 256"
          using "2.IH"(4) [OF _ _ _ Cons False] high cs by simp
        moreover have "utf8_units (c # cs) = [239, 191, 189] @ utf8_units cs"
          unfolding Cons using high False by (intro utf8_units_step(5)) auto
        ultimately show ?thesis
          by (simp del: utf8_units.simps)
      qed
    qed
  next
    case low
    then have "\<forall>b\<in>set (utf8_units cs). b < 256"
      using "2.IH"(5) cs by simp
    then show ?thesis using low
      by (simp add: utf8_units_step del: utf8_units.simps)
  next
    case three
    then have "\<forall>b\<in>set (utf8_units cs). b < 256"
      using "2.IH"(6) cs by auto
    then show ?thesis using three lead
      by (simp add: utf8_units_step mod_64_lt_128 del: utf8_units.simps)
  qed
qed

lemma unat16_lt: "unat (c :: 16 word) < 65536"
  by (rule order_less_le_trans [OF unsigned_less]) simp

lemma TextEncoder_encode_lt: "b \<in> set (TextEncoder_encode s) \<Longrightarrow> b < 256"
proof -
  have "\<forall>c\<in>set (map unat s). c < 65536"
    by (simp add: unat16_lt)
  then show "b \<in> set (TextEncoder_encode s) \<Longrightarrow> b < 256"
    unfolding TextEncoder_encode_def using utf8_units_lt by blast
qed

lemma unat_fromCharCode: "n < 65536 \<Longrightarrow> unat (fromCharCode n) = n"
  by (simp add: fromCharCode_def unat_of_nat)

lemma fromCharCode_le: "n < 65536 \<Longrightarrow> (fromCharCode n \<le> 255) = (n \<le> 255)"
  by (simp add: word_le_nat_alt unat_fromCharCode)

lemma btoa_binary_string:
  "\<forall>b\<in>set bs. b < 256 \<Longrightarrow> btoa (binary_string bs) = Inr (base64 bs)"
proof -
  assume lt: "\<forall>b\<in>set bs. b < 256"
  then have "list_all (\<lambda>c. c \<le> 255) (binary_string bs)"
    by (auto simp: binary_string_def list_all_iff fromCharCode_le)
  moreover have "map unat (binary_string bs) = bs"
    using lt by (auto simp: binary_string_def unat_fromCharCode intro!: map_idI)
  ultimately show ?thesis by (simp add: btoa_def)
qed

lemma tlv_decode_fields:
  "tlv_decode (concat (map (\<lambda>(t, bs). [t] @ [length bs] @ bs) fs))
     = Some (map (\<lambda>(t, bs). (t, length bs, bs)) fs)"
  by (induction fs) auto


lemma concat_fields:
  "concat (map (\<lambda>(tag, field). compute_qr_code_field tag field) flds)
     = concat (map (\<lambda>(t, bs). [t] @ [length bs] @ bs)
         (map (\<lambda>(tag, field). (tag, TextEncoder_encode field)) flds))"
  by (induction flds) (auto simp: compute_qr_code_field_def Let_def)

text \<open>
  C5: for every ordered list of (tag, text) fields whose tags are single bytes and whose
  values take at most 255 bytes in UTF-8, the encoder returns a payload, and decoding that
  payload (base64, then tag, length, value) gives back the triples of tag, byte length and
  UTF-8 bytes, in the same order.
\<close>

theorem tlv_round_trip:
  assumes "\<forall>(tag, field)\<in>set flds. tag < 256 \<and> length (TextEncoder_encode field) \<le> 255"
  shows "\<exists>payload. encode_fields flds = Inr payload
           \<and> Option.bind (base64_decode payload) tlv_decode
               = Some (map (\<lambda>(tag, field).
                         (tag, length (TextEncoder_encode field), TextEncoder_encode field)) flds)"
proof -
  let ?arr = "concat (map (\<lambda>(tag, field). compute_qr_code_field tag field) flds)"
  have bytes: "\<forall>b\<in>set ?arr. b < 256"
    using assms TextEncoder_encode_lt
    by (fastforce simp: compute_qr_code_field_def Let_def)
  then have enc: "encode_fields flds = Inr (base64 ?arr)"
    by (simp add: encode_fields_def btoa_binary_string)
  have "Option.bind (base64_decode (base64 ?arr)) tlv_decode = tlv_decode ?arr"
    using bytes by (simp add: base64_decode_base64)
  also have "\<dots> = Some (map (\<lambda>(t, bs). (t, length bs, bs))
                       (map (\<lambda>(tag, field). (tag, TextEncoder_encode field)) flds))"
    unfolding concat_fields by (rule tlv_decode_fields)
  also have "\<dots> = Some (map (\<lambda>(tag, field).
                         (tag, length (TextEncoder_encode field), TextEncoder_encode field)) flds)"
    by (simp add: case_prod_unfold comp_def)
  finally show ?thesis using enc by simp
qed

theorem tlv_round_trip_witness:
  "encode_fields [(1, js ''Acme''), (2, js ''300'')]
     = Inr (js ''AQRBY21lAgMzMDA='')
   \<and> Option.bind (base64_decode (js ''AQRBY21lAgMzMDA='')) tlv_decode
       = Some [(1, 4, [65, 99, 109, 101]), (2, 3, [51, 48, 48])]"
  using tlv_round_trip [of "[(1, js ''Acme''), (2, js ''300'')]"]
  by (simp add: js_def encode_fields_def compute_qr_code_field_def TextEncoder_encode_def
      binary_string_def fromCharCode_def btoa_def b64_char_def b64_val_def)

lemma fromCharCode_mod: "fromCharCode (n mod 65536) = fromCharCode n"
proof -
  have "(of_nat (n mod 2 ^ LENGTH(16)) :: 16 word) = of_nat n"
    by (simp add: word_of_nat_eq_iff take_bit_eq_mod)
  then show ?thesis by (simp add: fromCharCode_def)
qed

lemma binary_string_mod: "binary_string (map (\<lambda>n. n mod 65536) arr) = binary_string arr"
  by (simp add: binary_string_def fromCharCode_mod)

lemma encode_fields_wraps:
  assumes "\<forall>(tag, field)\<in>set flds. tag < 256 \<and> length (TextEncoder_encode field) mod 65536 < 256"
  shows "encode_fields flds =
           Inr (base64 (concat (map (\<lambda>(tag, field).
                  [tag, length (TextEncoder_encode field) mod 65536] @ TextEncoder_encode field)
                flds)))"
proof -
  let ?arr = "concat (map (\<lambda>(tag, field). compute_qr_code_field tag field) flds)"
  let ?low = "concat (map (\<lambda>(tag, field).
                  [tag, length (TextEncoder_encode field) mod 65536] @ TextEncoder_encode field)
                flds)"
  have "map (\<lambda>n. n mod 65536) ?arr = ?low"
    using assms
  proof (induction flds)
    case Nil
    then show ?case by simp
  next
    case (Cons p ps)
    obtain tag field where p: "p = (tag, field)" by (cases p)
    have "\<forall>b\<in>set (TextEncoder_encode field). b < 65536"
      using TextEncoder_encode_lt by fastforce
    then have "map (\<lambda>n. n mod 65536) (TextEncoder_encode field) = TextEncoder_encode field"
      by (simp add: map_idI)
    then show ?case
      using Cons p by (simp add: compute_qr_code_field_def Let_def)
  qed
  then have "binary_string ?arr = binary_string ?low"
    using binary_string_mod [of ?arr] by simp
  moreover have "\<forall>b\<in>set ?low. b < 256"
    using assms TextEncoder_encode_lt by fastforce
  ultimately show ?thesis
    by (simp add: encode_fields_def btoa_binary_string)
qed

lemma encode_fields_throws:
  assumes "(tag, field) \<in> set flds" "256 \<le> length (TextEncoder_encode field) mod 65536"
  shows "encode_fields flds = Inl InvalidCharacterError"
proof -
  let ?n = "length (TextEncoder_encode field)"
  have "?n \<in> set (concat (map (\<lambda>(tag, field). compute_qr_code_field tag field) flds))"
    using assms(1) by (force simp: compute_qr_code_field_def Let_def)
  then have "fromCharCode ?n
      \<in> set (binary_string (concat (map (\<lambda>(tag, field). compute_qr_code_field tag field) flds)))"
    by (simp add: binary_string_def)
  moreover have "\<not> fromCharCode ?n \<le> 255"
    using assms(2) fromCharCode_le [of "?n mod 65536"] by (simp add: fromCharCode_mod)
  ultimately show ?thesis
    by (auto simp: encode_fields_def btoa_def list_all_iff)
qed

lemma utf8_units_ascii: "n < 128 \<Longrightarrow> utf8_units (replicate k n) = replicate k n"
  by (induction k) simp_all

lemma TextEncoder_encode_long_name: "TextEncoder_encode long_name = replicate 65536 97"
  by (simp add: TextEncoder_encode_def long_name_def utf8_units_ascii)

text \<open>
  C6: there is a field whose UTF-8 encoding exceeds 255 bytes, a seller name of 65536
  letters, for which the encoder raises nothing and returns a payload whose length byte for
  that field is not its length: the payload decodes to tag 1, length 0, then the 65536
  bytes. (\<open>String.fromCharCode\<close> keeps the low 16 bits of the length; by
  \<open>encode_fields_throws\<close> a length that leaves more than 255 there makes \<open>btoa\<close> throw
  instead, and by \<open>encode_fields_wraps\<close> any other length is written modulo 65536.)
\<close>

theorem length_byte_wraps:
  "length (TextEncoder_encode long_name) = 65536
   \<and> base64_decode (convertQRDataToBase64String bare_runtime [(1, Str long_name)])
       = Some ([1, 0] @ TextEncoder_encode long_name
               @ [2, 0, 3, 0, 4, 0, 5, 0, 6, 0, 7, 0, 8, 0, 9, 0])"
proof -
  let ?flds = "[(1, long_name), (2, []), (3, []), (4, []), (5, []), (6, []), (7, []), (8, []),
                (9, [])] :: (nat \<times> jsstring) list"
  have empty: "TextEncoder_encode [] = []"
    by (simp add: TextEncoder_encode_def)
  have nonempty: "long_name \<noteq> []"
    by (simp add: long_name_def)
  have "convertQRDataToBase64String bare_runtime [(1, Str long_name)]
          = (case encode_fields ?flds of Inl e \<Rightarrow> [] | Inr b \<Rightarrow> b)"
    by (simp add: convertQRDataToBase64String_def qr_get_def js_or_def nonempty eval_nat_numeral)
  also have "encode_fields ?flds
      = Inr (base64 ([1, 0] @ TextEncoder_encode long_name
               @ [2, 0, 3, 0, 4, 0, 5, 0, 6, 0, 7, 0, 8, 0, 9, 0]))"
    by (subst encode_fields_wraps) (simp_all add: empty TextEncoder_encode_long_name)
  finally have "convertQRDataToBase64String bare_runtime [(1, Str long_name)]
      = base64 ([1, 0] @ TextEncoder_encode long_name
               @ [2, 0, 3, 0, 4, 0, 5, 0, 6, 0, 7, 0, 8, 0, 9, 0])"
    by simp
  moreover have "\<forall>b\<in>set ([1, 0] @ TextEncoder_encode long_name
               @ [2, 0, 3, 0, 4, 0, 5, 0, 6, 0, 7, 0, 8, 0, 9, 0]). b < 256"
    by (simp add: TextEncoder_encode_long_name)
  ultimately show ?thesis
    by (simp add: base64_decode_base64 del: append.simps) (simp add: TextEncoder_encode_long_name)
qed

section \<open>Properties of the canonical form\<close>

lemma set_property_order: "set (property_order kvs) = set kvs"
  by (auto simp: property_order_def)

lemma distinct_property_order:
  assumes "distinct (map fst kvs)"
  shows "distinct (map fst (property_order kvs))"
proof -
  have d: "distinct kvs" and inj: "inj_on fst (set kvs)"
    using assms by (simp_all add: distinct_map)
  have "distinct (property_order kvs)"
    using d by (auto simp: property_order_def)
  then show ?thesis
    using inj by (simp add: distinct_map set_property_order)
qed

lemma set_Object_keys: "set (Object_keys kvs) = set (map fst kvs)"
  by (simp add: Object_keys_def set_property_order)

lemma sorted_keys_eq:
  assumes "distinct (map fst xs)" "distinct (map fst ys)" "set (map fst xs) = set (map fst ys)"
  shows "sort (Object_keys xs) = sort (Object_keys ys)"
proof (rule sorted_distinct_set_unique)
  show "distinct (sort (Object_keys xs))" "distinct (sort (Object_keys ys))"
    using assms(1,2) by (simp_all add: Object_keys_def distinct_property_order)
  show "set (sort (Object_keys xs)) = set (sort (Object_keys ys))"
    using assms(3) by (simp add: set_Object_keys)
qed simp_all

lemma wf_json_lookup:
  "wf_json (JObj kvs) \<Longrightarrow> map_of kvs key = Some v \<Longrightarrow> wf_json v"
  by (auto simp: list_all_iff dest!: map_of_SomeD)

lemma struct_eq_sorted:
  "struct_eq a b \<Longrightarrow> wf_json a \<Longrightarrow> wf_json b \<Longrightarrow>
     sortObjectKeysRecursively a = sortObjectKeysRecursively b"
proof (induction a arbitrary: b rule: sortObjectKeysRecursively.induct)
  case (1 items)
  then obtain ys where b: "b = JArr ys" and rel: "list_all2 struct_eq items ys"
    by (auto split: json.splits)
  have wfs: "list_all wf_json items" "list_all wf_json ys"
    using "1.prems" b by simp_all
  have "map sortObjectKeysRecursively items = map sortObjectKeysRecursively ys"
    using rel wfs "1.IH"
  proof (induction items ys rule: list_all2_induct)
    case Nil
    then show ?case by simp
  next
    case (Cons x xs y ys)
    then show ?case by simp
  qed
  then show ?case by (simp add: b)
next
  case (2 kvs)
  then obtain ys where b: "b = JObj ys"
    and ykeys: "list_all (\<lambda>key. key \<in> set (map fst kvs)) (map fst ys)"
    and vals: "list_all (\<lambda>key. case map_of kvs key of
                               None \<Rightarrow> False
                             | Some v \<Rightarrow>
                                 (case map_of ys key of
                                    None \<Rightarrow> False
                                  | Some w \<Rightarrow> struct_eq v w)) (map fst kvs)"
    by (auto split: json.splits)
  have dist: "distinct (map fst kvs)" "distinct (map fst ys)"
    using "2.prems" b by simp_all
  have "set (map fst kvs) \<subseteq> set (map fst ys)"
  proof
    fix key assume "key \<in> set (map fst kvs)"
    moreover have "\<forall>key\<in>set (map fst kvs). case map_of kvs key of
                               None \<Rightarrow> False
                             | Some v \<Rightarrow>
                                 (case map_of ys key of
                                    None \<Rightarrow> False
                                  | Some w \<Rightarrow> struct_eq v w)"
      using vals unfolding list_all_iff .
    ultimately have "case map_of kvs key of
                               None \<Rightarrow> False
                             | Some v \<Rightarrow>
                                 (case map_of ys key of
                                    None \<Rightarrow> False
                                  | Some w \<Rightarrow> struct_eq v w)"
      by blast
    then have "map_of ys key \<noteq> None"
      by (auto split: option.splits)
    then show "key \<in> set (map fst ys)"
      by (simp add: map_of_eq_None_iff)
  qed
  moreover have "set (map fst ys) \<subseteq> set (map fst kvs)"
    using ykeys by (auto simp: list_all_iff)
  ultimately have keys: "set (map fst kvs) = set (map fst ys)" by blast
  have sorted: "sort (Object_keys kvs) = sort (Object_keys ys)"
    using dist keys by (rule sorted_keys_eq)
  have "(case map_of kvs key of None \<Rightarrow> JVal Undefined
         | Some v \<Rightarrow> sortObjectKeysRecursively v) =
        (case map_of ys key of None \<Rightarrow> JVal Undefined
         | Some w \<Rightarrow> sortObjectKeysRecursively w)"
    if "key \<in> set (sort (Object_keys kvs))" for key
  proof -
    from that have k: "key \<in> set (map fst kvs)"
      by (simp add: set_Object_keys)
    have "\<forall>key\<in>set (map fst kvs). case map_of kvs key of
                               None \<Rightarrow> False
                             | Some v \<Rightarrow>
                                 (case map_of ys key of
                                    None \<Rightarrow> False
                                  | Some w \<Rightarrow> struct_eq v w)"
      using vals unfolding list_all_iff .
    with k have "case map_of kvs key of
                               None \<Rightarrow> False
                             | Some v \<Rightarrow>
                                 (case map_of ys key of
                                    None \<Rightarrow> False
                                  | Some w \<Rightarrow> struct_eq v w)"
      by blast
    then obtain v w where v: "map_of kvs key = Some v" and w: "map_of ys key = Some w"
      and eq: "struct_eq v w"
      by (auto split: option.splits)
    have "wf_json v" "wf_json w"
      using "2.prems" b v w by (auto intro: wf_json_lookup)
    then have "sortObjectKeysRecursively v = sortObjectKeysRecursively w"
      using "2.IH" [OF that v eq] by simp
    then show ?thesis by (simp add: v w)
  qed
  then show ?case
    by (simp add: b sorted [symmetric])
next
  case (3 v)
  then show ?case by simp
qed

lemma JSON_stringify_None: "JSON_stringify rt j = None \<longleftrightarrow> j = JVal Undefined"
  by (induction rt j rule: JSON_stringify.induct) simp_all

lemma struct_eq_Undefined: "struct_eq a b \<Longrightarrow> (a = JVal Undefined) = (b = JVal Undefined)"
  by (cases a) (auto split: json.splits)

text \<open>
  C2: two content objects that are structurally equal, their keys created in any order,
  have the same canonical form, code unit for code unit.
\<close>

theorem canonical_form_order_independent:
  assumes "wf_json a" "wf_json b" "struct_eq a b"
  shows "canonicalizeForZatca rt a = canonicalizeForZatca rt b"
proof -
  have "sortObjectKeysRecursively a = sortObjectKeysRecursively b"
    using assms by (simp add: struct_eq_sorted)
  moreover have "JSON_stringify rt a = JSON_stringify rt b"
    if "JSON_stringify rt (sortObjectKeysRecursively a) = None"
  proof -
    from that have "sortObjectKeysRecursively a = JVal Undefined"
      by (simp add: JSON_stringify_None)
    then have "a = JVal Undefined"
      by (cases a) simp_all
    then show ?thesis
      using struct_eq_Undefined [OF assms(3)] by simp
  qed
  ultimately show ?thesis
    by (auto simp: canonicalizeForZatca_def split: option.splits)
qed


theorem canonical_form_order_independent_witness:
  "wf_json receipt_a \<and> wf_json receipt_b \<and> struct_eq receipt_a receipt_b
   \<and> receipt_a \<noteq> receipt_b
   \<and> canonicalizeForZatca bare_runtime receipt_a = canonicalizeForZatca bare_runtime receipt_b"
  using canonical_form_order_independent [of receipt_a receipt_b bare_runtime]
  by (simp add: receipt_a_def receipt_b_def js_def)

section \<open>Properties of certificate resolution\<close>






end
